theory Spec2Isabelle
  imports Complex_Main
begin

section \<open>The interface producer (src/producers/interface\_producer.py)\<close>

text \<open>
  \<open>InterfaceProducer\<close> keeps two Python lists, \<open>interfaces\<close> and \<open>notifiers\<close>, and the counter
  \<open>to_create_notifiers_count\<close>. It reads the list \<open>exchange_manager_ids\<close> of the exchange
  producer (\<open>self.MEV.exchange_producer.exchange_manager_ids\<close>), which it never writes.
  An instance is a Python reference: \<open>None\<close> is Python's \<open>None\<close>, \<open>Some i\<close> the object \<open>i\<close>.

  Everything the producer does to the outside (a message put on the channel by \<open>self.send\<close>, a
  call into \<open>service_api\<close> or \<open>service_managers\<close>) is an effect; every method returns the effects
  it performed, in order, together with the state it leaves. The methods are coroutines; the
  model runs each call to completion before the next one starts.
\<close>

text \<open>
  A plugin class as the producer sees it: the name and the \<open>REQUIRED_SERVICES\<close> list are
  attributes of the class; the three flags are what \<open>service_api.is_enabled\<close>,
  \<open>service_api.is_enabled_in_config\<close> and \<open>service_api.is_enabled_in_backtesting\<close> (functions of
  another package) answer for the class under the bot's configuration. For a service, the flag
  is the answer of \<open>service.get_is_enabled(config)\<close>.
\<close>

record service =
  service_name :: string
  get_is_enabled :: bool

record plugin_class =
  get_name :: string
  REQUIRED_SERVICES :: "service list"
  is_enabled :: bool
  is_enabled_in_config :: bool
  is_enabled_in_backtesting :: bool

datatype ('i, 'e) effect =
    SendInterfaceCreation plugin_class bool
  | SendNotifierCreation plugin_class bool
  | SendExchangeRegistration "'i option" 'e
  | ProcessPendingNotifications
  | InitializeGlobalProjectData
  | StartInterfaces "'i option list"
  | LogNotStarted "'i option list"
  | StopInterfaces "'i option list"

record ('i, 'e) producer =
  interfaces :: "'i option list"
  notifiers :: "'i option list"
  to_create_notifiers_count :: nat
  exchange_manager_ids :: "'e list"

text \<open>\<open>__init__\<close>: both lists empty, the counter 0; the exchange ids belong to the bot.\<close>

definition init_producer :: "'e list \<Rightarrow> ('i, 'e) producer" where
  "init_producer ids =
     \<lparr>interfaces = [], notifiers = [], to_create_notifiers_count = 0,
      exchange_manager_ids = ids\<rparr>"

text \<open>\<open>_register_exchange\<close>: one UPDATE / EXCHANGE\_REGISTRATION message for the pair.\<close>

definition register_exchange_msg :: "'i option \<Rightarrow> 'e \<Rightarrow> ('i, 'e) effect list" where
  "register_exchange_msg to_notify_instance exchange_id =
     [SendExchangeRegistration to_notify_instance exchange_id]"

text \<open>\<open>register_exchange\<close>: loops over \<open>self.interfaces + self.notifiers\<close>.\<close>

definition register_exchange ::
  "'e \<Rightarrow> ('i, 'e) producer \<Rightarrow> ('i, 'e) effect list \<times> ('i, 'e) producer" where
  "register_exchange exchange_id s =
     (concat (map (\<lambda>to_notify_instance. register_exchange_msg to_notify_instance exchange_id)
                  (interfaces s @ notifiers s)), s)"

text \<open>\<open>_register_existing_exchanges\<close>: loops over the exchange producer's ids.\<close>

definition register_existing_exchanges ::
  "'i option \<Rightarrow> ('i, 'e) producer \<Rightarrow> ('i, 'e) effect list" where
  "register_existing_exchanges instance s =
     concat (map (\<lambda>exchange_id. register_exchange_msg instance exchange_id)
                 (exchange_manager_ids s))"

text \<open>\<open>register_interface\<close>: guarded by \<open>instance is not None\<close>.\<close>

definition register_interface ::
  "'i option \<Rightarrow> ('i, 'e) producer \<Rightarrow> ('i, 'e) effect list \<times> ('i, 'e) producer" where
  "register_interface instance s =
     (if instance \<noteq> None
      then (let s1 = s\<lparr>interfaces := interfaces s @ [instance]\<rparr>
            in (register_existing_exchanges instance s1, s1))
      else ([], s))"

text \<open>\<open>register_notifier\<close>: no guard; the flush is called when the length of the list equals
  the counter.\<close>

definition register_notifier ::
  "'i option \<Rightarrow> ('i, 'e) producer \<Rightarrow> ('i, 'e) effect list \<times> ('i, 'e) producer" where
  "register_notifier instance s =
     (let s1 = s\<lparr>notifiers := notifiers s @ [instance]\<rparr>
      in (register_existing_exchanges instance s1
            @ (if length (notifiers s1) = to_create_notifiers_count s1
               then [ProcessPendingNotifications] else []),
          s1))"

text \<open>\<open>stop\<close>: hands \<open>self.interfaces\<close> to \<open>service_managers.stop_interfaces\<close> (a function of
  another package, which awaits the \<open>stop\<close> of each element) and assigns nothing.\<close>

definition stop ::
  "('i, 'e) producer \<Rightarrow> ('i, 'e) effect list \<times> ('i, 'e) producer" where
  "stop s = ([StopInterfaces (interfaces s)], s)"

text \<open>
  What \<open>start\<close> reads from the bot and from the other packages: the answer of
  \<open>backtesting_api.is_backtesting_enabled(config)\<close>, whether \<open>service_interfaces.get_bot_api()\<close>
  is \<open>None\<close>, the classes listed by the two factories, the answer of
  \<open>is_tentacle_activated_in_tentacles_setup_config\<close> for a name, and the list that
  \<open>service_managers.start_interfaces\<close> returns for the list it is given.
\<close>

record 'i bot =
  is_backtesting_enabled :: bool
  bot_api_is_none :: bool
  get_available_interfaces :: "plugin_class list"
  get_available_notifiers :: "plugin_class list"
  is_tentacle_activated_in_tentacles_setup_config :: "string \<Rightarrow> bool"
  start_interfaces_result :: "'i option list \<Rightarrow> 'i option list"

text \<open>\<open>_is_interface_relevant\<close> and \<open>_is_notifier_relevant\<close>, conjunct by conjunct; \<open>all(...)\<close>
  over the required services is \<open>list_all\<close>.\<close>

definition is_interface_relevant :: "'i bot \<Rightarrow> plugin_class \<Rightarrow> bool \<Rightarrow> bool" where
  "is_interface_relevant b interface_class backtesting_enabled =
     (is_enabled interface_class
      \<and> is_tentacle_activated_in_tentacles_setup_config b (get_name interface_class)
      \<and> list_all get_is_enabled (REQUIRED_SERVICES interface_class)
      \<and> (\<not> backtesting_enabled
           \<or> (backtesting_enabled \<and> is_enabled_in_backtesting interface_class)))"

definition is_notifier_relevant :: "'i bot \<Rightarrow> plugin_class \<Rightarrow> bool \<Rightarrow> bool" where
  "is_notifier_relevant b notifier_class backtesting_enabled =
     (is_enabled_in_config notifier_class
      \<and> is_tentacle_activated_in_tentacles_setup_config b (get_name notifier_class)
      \<and> list_all get_is_enabled (REQUIRED_SERVICES notifier_class)
      \<and> \<not> backtesting_enabled)"

text \<open>\<open>_create_interface_if_relevant\<close>: one CREATION / INTERFACE message when relevant.\<close>

definition create_interface_if_relevant ::
  "'i bot \<Rightarrow> plugin_class \<Rightarrow> bool \<Rightarrow> ('i, 'e) effect list" where
  "create_interface_if_relevant b interface_class backtesting_enabled =
     (if is_interface_relevant b interface_class backtesting_enabled
      then [SendInterfaceCreation interface_class backtesting_enabled] else [])"

text \<open>\<open>_create_notifier_class_if_relevant\<close>: one CREATION / NOTIFICATION message when relevant,
  and the counter goes up by one.\<close>

definition create_notifier_class_if_relevant ::
  "'i bot \<Rightarrow> plugin_class \<Rightarrow> bool \<Rightarrow> ('i, 'e) producer
     \<Rightarrow> ('i, 'e) effect list \<times> ('i, 'e) producer" where
  "create_notifier_class_if_relevant b notifier_class backtesting_enabled s =
     (if is_notifier_relevant b notifier_class backtesting_enabled
      then ([SendNotifierCreation notifier_class backtesting_enabled],
            s\<lparr>to_create_notifiers_count := to_create_notifiers_count s + 1\<rparr>)
      else ([], s))"

text \<open>\<open>_create_interfaces\<close>: the global project data is initialised when no bot api is set;
  then the loop over the factory's classes.\<close>

definition create_interfaces :: "'i bot \<Rightarrow> bool \<Rightarrow> ('i, 'e) effect list" where
  "create_interfaces b in_backtesting =
     (if bot_api_is_none b then [InitializeGlobalProjectData] else [])
     @ concat (map (\<lambda>interface_class. create_interface_if_relevant b interface_class in_backtesting)
                   (get_available_interfaces b))"

text \<open>\<open>_create_notifiers\<close>: the loop over the factory's classes, threading the counter.\<close>

fun create_notifiers_loop ::
  "'i bot \<Rightarrow> plugin_class list \<Rightarrow> bool \<Rightarrow> ('i, 'e) producer
     \<Rightarrow> ('i, 'e) effect list \<times> ('i, 'e) producer" where
  "create_notifiers_loop b [] in_backtesting s = ([], s)"
| "create_notifiers_loop b (notifier_class # rest) in_backtesting s =
     (case create_notifier_class_if_relevant b notifier_class in_backtesting s of
        (out, s1) \<Rightarrow>
          (case create_notifiers_loop b rest in_backtesting s1 of
             (outs, s2) \<Rightarrow> (out @ outs, s2)))"

definition create_notifiers ::
  "'i bot \<Rightarrow> bool \<Rightarrow> ('i, 'e) producer \<Rightarrow> ('i, 'e) effect list \<times> ('i, 'e) producer" where
  "create_notifiers b in_backtesting s =
     create_notifiers_loop b (get_available_notifiers b) in_backtesting s"

text \<open>\<open>start_interfaces\<close>: the interfaces that did not start are logged when the lengths
  differ.\<close>

definition start_interfaces :: "'i bot \<Rightarrow> ('i, 'e) producer \<Rightarrow> ('i, 'e) effect list" where
  "start_interfaces b s =
     (let to_start_interfaces = interfaces s;
          started_interfaces = start_interfaces_result b to_start_interfaces
      in StartInterfaces to_start_interfaces
         # (if length started_interfaces \<noteq> length to_start_interfaces
            then [LogNotStarted (filter (\<lambda>interface. interface \<notin> set started_interfaces)
                                        to_start_interfaces)]
            else []))"

definition start ::
  "'i bot \<Rightarrow> ('i, 'e) producer \<Rightarrow> ('i, 'e) effect list \<times> ('i, 'e) producer" where
  "start b s =
     (let in_backtesting = is_backtesting_enabled b;
          out1 = create_interfaces b in_backtesting
      in case create_notifiers b in_backtesting s of
           (out2, s1) \<Rightarrow> (out1 @ out2 @ start_interfaces b s1, s1))"

text \<open>The producer once \<open>start\<close> has returned on a fresh object, and the number of notifier
  classes of the factory that are relevant.\<close>

definition started :: "'i bot \<Rightarrow> 'e list \<Rightarrow> ('i, 'e) producer" where
  "started b ids = snd (start b (init_producer ids))"

definition eligible_notifiers :: "'i bot \<Rightarrow> nat" where
  "eligible_notifiers b =
     length (filter (\<lambda>notifier_class.
                        is_notifier_relevant b notifier_class (is_backtesting_enabled b))
                    (get_available_notifiers b))"

subsection \<open>Sequences of calls\<close>

text \<open>
  The calls the producer receives after \<open>start\<close>, one constructor per public method.
\<close>

datatype ('i, 'e) call =
    RegisterInterface "'i option"
  | RegisterNotifier "'i option"
  | RegisterExchange 'e
  | ExchangeCreated 'e
  | Stop

text \<open>
  Modelled from the spec: the code that records a new exchange id is not under src/ (the
  channel consumer of the bot); the spec calls the ids replayed by \<open>registerInterface\<close> and
  \<open>registerNotifier\<close> the previously-seen handles, so \<open>exchange_created\<close> appends the handle to
  \<open>exchange_manager_ids\<close> and then calls \<open>register_exchange\<close> with it.
\<close>

definition exchange_created ::
  "'e \<Rightarrow> ('i, 'e) producer \<Rightarrow> ('i, 'e) effect list \<times> ('i, 'e) producer" where
  "exchange_created exchange_id s =
     register_exchange exchange_id
       (s\<lparr>exchange_manager_ids := exchange_manager_ids s @ [exchange_id]\<rparr>)"

fun exec ::
  "('i, 'e) call \<Rightarrow> ('i, 'e) producer \<Rightarrow> ('i, 'e) effect list \<times> ('i, 'e) producer" where
  "exec (RegisterInterface instance) s = register_interface instance s"
| "exec (RegisterNotifier instance) s = register_notifier instance s"
| "exec (RegisterExchange exchange_id) s = register_exchange exchange_id s"
| "exec (ExchangeCreated exchange_id) s = exchange_created exchange_id s"
| "exec Stop s = stop s"

text \<open>\<open>steps\<close> gives the effects of each call of a sequence, \<open>final\<close> the state it leaves.\<close>

fun steps :: "('i, 'e) call list \<Rightarrow> ('i, 'e) producer \<Rightarrow> ('i, 'e) effect list list" where
  "steps [] s = []"
| "steps (c # cs) s = fst (exec c s) # steps cs (snd (exec c s))"

fun final :: "('i, 'e) call list \<Rightarrow> ('i, 'e) producer \<Rightarrow> ('i, 'e) producer" where
  "final [] s = s"
| "final (c # cs) s = final cs (snd (exec c s))"

fun is_register_notifier :: "('i, 'e) call \<Rightarrow> bool" where
  "is_register_notifier (RegisterNotifier instance) = True"
| "is_register_notifier c = False"




section \<open>The startup arguments (src/cli.py, \<open>update_config_with_args\<close>)\<close>

text \<open>
  \<open>starting_args.risk\<close> is a Python float (argparse converts with \<open>float\<close>) or \<open>None\<close>. A float
  is a real number, one of the two infinities, or NaN; every comparison with NaN is false.
\<close>

datatype pyfloat = Finite real | PosInf | NegInf | NaN

fun float_less :: "pyfloat \<Rightarrow> pyfloat \<Rightarrow> bool" where
  "float_less NaN y = False"
| "float_less x NaN = False"
| "float_less (Finite a) (Finite b) = (a < b)"
| "float_less x PosInf = (x \<noteq> PosInf)"
| "float_less NegInf y = (y \<noteq> NegInf)"
| "float_less x y = False"

fun float_le :: "pyfloat \<Rightarrow> pyfloat \<Rightarrow> bool" where
  "float_le NaN y = False"
| "float_le x NaN = False"
| "float_le (Finite a) (Finite b) = (a \<le> b)"
| "float_le x PosInf = True"
| "float_le NegInf y = True"
| "float_le x y = False"

text \<open>
  \<open>config.config\<close> is a dictionary of sections, each section a dictionary of values. The
  function writes booleans, the list of data files and the risk; every other value is opaque.
\<close>

datatype config_value =
    VBool bool
  | VFloat pyfloat
  | VFiles "string list"
  | VOther string

type_synonym config_dict = "string \<rightharpoonup> (string \<rightharpoonup> config_value)"

datatype key_error = KeyError string

text \<open>
  The keys are constants of two other packages (\<open>MEV_commons.constants\<close> and
  \<open>MEV_backtesting.constants\<close>), whose values are not in the source: they are parameters.
\<close>

record config_keys =
  CONFIG_BACKTESTING :: string
  CONFIG_BACKTESTING_DATA_FILES :: string
  CONFIG_ENABLED_OPTION :: string
  CONFIG_TRADER :: string
  CONFIG_SIMULATOR :: string
  CONFIG_TRADING :: string
  CONFIG_TRADER_RISK :: string

record starting_args =
  backtesting :: bool
  backtesting_files :: "string list option"
  simulate :: bool
  risk :: "pyfloat option"

text \<open>\<open>config.config[section][key] = value\<close>: reading \<open>config.config[section]\<close> raises
  \<open>KeyError\<close> when the section is missing; the assignment into the section creates the key.\<close>

definition set_item ::
  "string \<Rightarrow> string \<Rightarrow> config_value \<Rightarrow> config_dict \<Rightarrow> key_error + config_dict" where
  "set_item section key v config =
     (case config section of
        None \<Rightarrow> Inl (KeyError section)
      | Some d \<Rightarrow> Inr (config(section \<mapsto> d(key \<mapsto> v))))"

definition get_item :: "config_dict \<Rightarrow> string \<Rightarrow> string \<Rightarrow> config_value option" where
  "get_item config section key = (case config section of None \<Rightarrow> None | Some d \<Rightarrow> d key)"

text \<open>Statements run in order; the first one that raises ends the call.\<close>

definition and_then ::
  "key_error + config_dict \<Rightarrow> (config_dict \<Rightarrow> key_error + config_dict)
     \<Rightarrow> key_error + config_dict" where
  "and_then r f = (case r of Inl e \<Rightarrow> Inl e | Inr config \<Rightarrow> f config)"

text \<open>
  \<open>update_config_with_args\<close>, the three \<open>if\<close> statements in order. The import of
  \<open>MEV_backtesting.constants\<close> at the top has succeeded (the keys are its constants); a list of
  files is true in Python when it is neither \<open>None\<close> nor empty.
\<close>

definition update_config_with_args ::
  "config_keys \<Rightarrow> starting_args \<Rightarrow> config_dict \<Rightarrow> key_error + config_dict" where
  "update_config_with_args K args config =
     and_then
       (and_then
          (if backtesting args
           then and_then
                  (and_then
                     (and_then
                        (case backtesting_files args of
                           Some (f # fs) \<Rightarrow>
                             set_item (CONFIG_BACKTESTING K) (CONFIG_BACKTESTING_DATA_FILES K)
                               (VFiles (f # fs)) config
                         | _ \<Rightarrow> Inr config)
                        (set_item (CONFIG_BACKTESTING K) (CONFIG_ENABLED_OPTION K) (VBool True)))
                     (set_item (CONFIG_TRADER K) (CONFIG_ENABLED_OPTION K) (VBool False)))
                  (set_item (CONFIG_SIMULATOR K) (CONFIG_ENABLED_OPTION K) (VBool True))
           else Inr config)
          (\<lambda>config.
             if simulate args
             then and_then
                    (set_item (CONFIG_TRADER K) (CONFIG_ENABLED_OPTION K) (VBool False) config)
                    (set_item (CONFIG_SIMULATOR K) (CONFIG_ENABLED_OPTION K) (VBool True))
             else Inr config))
       (\<lambda>config.
          case risk args of
            None \<Rightarrow> Inr config
          | Some r \<Rightarrow>
              if float_less (Finite 0) r \<and> float_le r (Finite 1)
              then set_item (CONFIG_TRADING K) (CONFIG_TRADER_RISK K) (VFloat r) config
              else Inr config)"

text \<open>
  The same function read as the list of the assignments it makes, in order; \<open>assign_all\<close>
  performs a list of assignments. (That the two agree is \<open>update_as_assignments\<close> below.)
\<close>

fun assign_all ::
  "(string \<times> string \<times> config_value) list \<Rightarrow> config_dict \<Rightarrow> key_error + config_dict" where
  "assign_all [] config = Inr config"
| "assign_all ((section, key, v) # ws) config =
     and_then (set_item section key v config) (assign_all ws)"

definition assignments ::
  "config_keys \<Rightarrow> starting_args \<Rightarrow> (string \<times> string \<times> config_value) list" where
  "assignments K args =
     (if backtesting args
      then (case backtesting_files args of
              Some (f # fs) \<Rightarrow>
                [(CONFIG_BACKTESTING K, CONFIG_BACKTESTING_DATA_FILES K, VFiles (f # fs))]
            | _ \<Rightarrow> [])
           @ [(CONFIG_BACKTESTING K, CONFIG_ENABLED_OPTION K, VBool True),
              (CONFIG_TRADER K, CONFIG_ENABLED_OPTION K, VBool False),
              (CONFIG_SIMULATOR K, CONFIG_ENABLED_OPTION K, VBool True)]
      else [])
     @ (if simulate args
        then [(CONFIG_TRADER K, CONFIG_ENABLED_OPTION K, VBool False),
              (CONFIG_SIMULATOR K, CONFIG_ENABLED_OPTION K, VBool True)]
        else [])
     @ (case risk args of
          None \<Rightarrow> []
        | Some r \<Rightarrow>
            if float_less (Finite 0) r \<and> float_le r (Finite 1)
            then [(CONFIG_TRADING K, CONFIG_TRADER_RISK K, VFloat r)]
            else [])"

text \<open>The four sections the function reads exist, and the constants are different strings.\<close>

definition sections_present :: "config_keys \<Rightarrow> config_dict \<Rightarrow> bool" where
  "sections_present K config =
     (config (CONFIG_BACKTESTING K) \<noteq> None \<and> config (CONFIG_TRADER K) \<noteq> None
      \<and> config (CONFIG_SIMULATOR K) \<noteq> None \<and> config (CONFIG_TRADING K) \<noteq> None)"

definition keys_distinct :: "config_keys \<Rightarrow> bool" where
  "keys_distinct K =
     (distinct [CONFIG_BACKTESTING K, CONFIG_TRADER K, CONFIG_SIMULATOR K, CONFIG_TRADING K]
      \<and> distinct [CONFIG_ENABLED_OPTION K, CONFIG_BACKTESTING_DATA_FILES K,
                   CONFIG_TRADER_RISK K])"

section \<open>Loading the configuration at startup (src/cli.py, \<open>_create_startup_config\<close>)\<close>

text \<open>
  The functions call into the configuration object and into \<open>commands\<close> and
  \<open>configuration_manager\<close>, none of which is in the source. Each of these calls happens at most
  once in a run of \<open>_create_startup_config\<close>, so what the collaborators do is given by one
  answer per call site: the exception the call raises, if any (and for the migration, the
  boolean it returns). \<open>OtherError\<close> stands for any exception class other than the two named
  ones. The functions return the calls they made, in order, with the result.
\<close>

datatype startup_error = NoProfileError | ConfigError | OtherError string

text \<open>The object built by the first \<open>_create_configuration()\<close>, and the one built in the repair
  branch of \<open>_read_config\<close>.\<close>

datatype config_object = Original | Fresh

datatype external_call =
    CreateConfiguration config_object
  | InitConfig
  | Read config_object bool
  | SetDefaultProfile config_object
  | LoadProfiles config_object
  | EnsureProfile config_object
  | Validate config_object
  | MigrateFromPreviousConfig config_object

record collaborators =
  is_config_file_empty_or_missing :: bool
  init_config_raises :: "startup_error option"
  first_run_read_raises :: "startup_error option"
  read_raises :: "startup_error option"
  set_default_profile_raises :: "startup_error option"
  load_profiles_raises :: "startup_error option"
  fresh_read_raises :: "startup_error option"
  ensure_profile_raises :: "startup_error option"
  validate_raises :: "startup_error option"
  migrate_from_previous_config :: "startup_error + bool"
  tentacles_isdir :: bool

type_synonym 'a outcome = "external_call list \<times> (startup_error + 'a)"

text \<open>\<open>_repair_with_default_profile\<close>: \<open>set_default_profile(config)\<close>, then
  \<open>config.load_profiles_if_possible_and_necessary()\<close>.\<close>

definition repair_with_default_profile :: "collaborators \<Rightarrow> config_object \<Rightarrow> unit outcome" where
  "repair_with_default_profile E config =
     (case set_default_profile_raises E of
        Some e \<Rightarrow> ([SetDefaultProfile config], Inl e)
      | None \<Rightarrow>
          (case load_profiles_raises E of
             Some e \<Rightarrow> ([SetDefaultProfile config, LoadProfiles config], Inl e)
           | None \<Rightarrow> ([SetDefaultProfile config, LoadProfiles config], Inr ())))"

text \<open>
  \<open>_read_config\<close>: \<open>config.read(should_raise=True, ...)\<close>; on \<open>NoProfileError\<close> the repair, then
  a new object bound to the local name \<open>config\<close> and read with \<open>should_raise=False\<close>; any other
  exception of the first read becomes \<open>ConfigError\<close>. An exception raised inside the first
  handler is not caught by the second. The function returns nothing.
\<close>

definition read_config :: "collaborators \<Rightarrow> config_object \<Rightarrow> unit outcome" where
  "read_config E config =
     (case read_raises E of
        None \<Rightarrow> ([Read config True], Inr ())
      | Some e \<Rightarrow>
          if e = NoProfileError
          then (case repair_with_default_profile E config of
                  (t, Inl e1) \<Rightarrow> (Read config True # t, Inl e1)
                | (t, Inr u) \<Rightarrow>
                    (Read config True # t @ [CreateConfiguration Fresh, Read Fresh False],
                     case fresh_read_raises E of Some e2 \<Rightarrow> Inl e2 | None \<Rightarrow> Inr ()))
          else ([Read config True], Inl ConfigError))"

text \<open>\<open>_validate_config\<close>: when \<open>config.validate()\<close> raises, the migration is tried; when it
  returns false, \<open>ConfigError\<close> is raised.\<close>

definition validate_config :: "collaborators \<Rightarrow> config_object \<Rightarrow> unit outcome" where
  "validate_config E config =
     (case validate_raises E of
        None \<Rightarrow> ([Validate config], Inr ())
      | Some err \<Rightarrow>
          ([Validate config, MigrateFromPreviousConfig config],
           case migrate_from_previous_config E of
             Inl e \<Rightarrow> Inl e
           | Inr migrated \<Rightarrow> if migrated then Inr () else Inl ConfigError))"

text \<open>The body of the \<open>try\<close> statement of \<open>_create_startup_config\<close>:
  \<open>commands.ensure_profile(config)\<close>, then \<open>_validate_config(config, logger)\<close>.\<close>

definition ensure_profile_then_validate :: "collaborators \<Rightarrow> config_object \<Rightarrow> unit outcome" where
  "ensure_profile_then_validate E config =
     (case ensure_profile_raises E of
        Some e \<Rightarrow> ([EnsureProfile config], Inl e)
      | None \<Rightarrow>
          (case validate_config E config of (t, r) \<Rightarrow> (EnsureProfile config # t, r)))"

text \<open>
  \<open>_create_startup_config\<close>. The handler of the \<open>try\<close> statement catches \<open>NoProfileError\<close> and
  \<open>ConfigError\<close> and raises again only when the tentacles path is a directory. The object
  returned is the one created at the top.
\<close>

definition create_startup_config :: "collaborators \<Rightarrow> (config_object \<times> bool) outcome" where
  "create_startup_config E =
     (let config = Original;
          is_first_startup = is_config_file_empty_or_missing E
      in if is_first_startup
         then (case init_config_raises E of
                 Some e \<Rightarrow> ([CreateConfiguration config, InitConfig], Inl e)
               | None \<Rightarrow>
                   ([CreateConfiguration config, InitConfig, Read config False],
                    case first_run_read_raises E of
                      Some e \<Rightarrow> Inl e
                    | None \<Rightarrow> Inr (config, is_first_startup)))
         else (case read_config E config of
                 (t1, Inl e) \<Rightarrow> (CreateConfiguration config # t1, Inl e)
               | (t1, Inr u) \<Rightarrow>
                   (case ensure_profile_then_validate E config of
                      (t2, Inl e) \<Rightarrow>
                        (CreateConfiguration config # t1 @ t2,
                         if e = NoProfileError \<or> e = ConfigError
                         then (if tentacles_isdir E then Inl e
                               else Inr (config, is_first_startup))
                         else Inl e)
                    | (t2, Inr u) \<Rightarrow>
                        (CreateConfiguration config # t1 @ t2,
                         Inr (config, is_first_startup)))))"

fun is_repair_call :: "external_call \<Rightarrow> bool" where
  "is_repair_call (SetDefaultProfile config) = True"
| "is_repair_call c = False"

section \<open>Properties of the producer\<close>

subsection \<open>What a sequence of calls does to the state\<close>

lemma steps_nth:
  "k < length cs \<Longrightarrow> steps cs s ! k = fst (exec (cs ! k) (final (take k cs) s))"
proof (induction cs arbitrary: s k)
  case Nil
  then show ?case by simp
next
  case (Cons c cs)
  then show ?case by (cases k) auto
qed

lemma exec_count: "to_create_notifiers_count (snd (exec c s)) = to_create_notifiers_count s"
  by (cases c) (auto simp: register_interface_def register_notifier_def register_exchange_def
      exchange_created_def stop_def Let_def)

lemma exec_notifiers:
  "notifiers (snd (exec c s)) = notifiers s @ (case c of RegisterNotifier x \<Rightarrow> [x] | _ \<Rightarrow> [])"
  by (cases c) (auto simp: register_interface_def register_notifier_def register_exchange_def
      exchange_created_def stop_def Let_def)



lemma final_count: "to_create_notifiers_count (final cs s) = to_create_notifiers_count s"
  by (induction cs arbitrary: s) (auto simp: exec_count)

lemma final_length_notifiers:
  "length (notifiers (final cs s)) = length (notifiers s) + length (filter is_register_notifier cs)"
proof (induction cs arbitrary: s)
  case Nil
  then show ?case by simp
next
  case (Cons c cs)
  then show ?case by (cases c) (simp_all add: exec_notifiers del: exec.simps)
qed



lemma exec_flush:
  "count_list (fst (exec c s)) ProcessPendingNotifications
     = (if is_register_notifier c \<and> Suc (length (notifiers s)) = to_create_notifiers_count s
        then 1 else 0)"
  by (cases c) (auto simp: register_interface_def register_notifier_def register_exchange_def
      exchange_created_def stop_def Let_def register_existing_exchanges_def register_exchange_msg_def
      count_list_0_iff)

lemma flush_total:
  "count_list (concat (steps cs s)) ProcessPendingNotifications
     = (if length (notifiers s) < to_create_notifiers_count s
           \<and> to_create_notifiers_count s \<le> length (notifiers s) + length (filter is_register_notifier cs)
        then 1 else 0)"
proof (induction cs arbitrary: s)
  case Nil
  then show ?case by simp
next
  case (Cons c cs)
  show ?case
    by (cases c) (auto simp: Cons.IH exec_flush exec_count exec_notifiers simp del: exec.simps)
qed

lemma create_notifiers_loop_state:
  "snd (create_notifiers_loop b cls bt s)
     = s\<lparr>to_create_notifiers_count :=
           to_create_notifiers_count s + length (filter (\<lambda>c. is_notifier_relevant b c bt) cls)\<rparr>"
proof (induction cls arbitrary: s)
  case Nil
  then show ?case by simp
next
  case (Cons c cls)
  have "snd (create_notifiers_loop b (c # cls) bt s)
          = snd (create_notifiers_loop b cls bt
                   (snd (create_notifier_class_if_relevant b c bt s)))"
    by (simp split: prod.splits)
  then show ?case
    by (simp add: Cons.IH create_notifier_class_if_relevant_def)
qed

lemma started_state:
  "started b ids =
     \<lparr>interfaces = [], notifiers = [], to_create_notifiers_count = eligible_notifiers b,
      exchange_manager_ids = ids\<rparr>"
proof -
  have "snd (start b (init_producer ids))
          = snd (create_notifiers b (is_backtesting_enabled b) (init_producer ids))"
    by (simp add: start_def Let_def split: prod.splits)
  then show ?thesis
    by (simp add: started_def create_notifiers_def create_notifiers_loop_state
        eligible_notifiers_def init_producer_def)
qed


subsection \<open>The flush of the pending notifications\<close>

text \<open>
  C1. Let N be the number of relevant notifier classes counted by \<open>start\<close>. In any sequence
  of calls received after \<open>start\<close>, the call that flushes the pending notifications is the
  \<open>register_notifier\<close> call that is the Nth of its kind, and no other call; over the whole
  sequence the flush happens once when N is positive and at least N \<open>register_notifier\<close> calls
  arrive, and never otherwise (in particular never when N = 0, and never a second time when
  more than N calls arrive).
\<close>

theorem flush_fires_once_at_Nth:
  "to_create_notifiers_count (started b ids) = eligible_notifiers b
   \<and> (\<forall>k < length cs.
         count_list (steps cs (started b ids) ! k) ProcessPendingNotifications
           = (if is_register_notifier (cs ! k)
                 \<and> length (filter is_register_notifier (take (Suc k) cs)) = eligible_notifiers b
              then 1 else 0))
   \<and> count_list (concat (steps cs (started b ids))) ProcessPendingNotifications
       = (if 0 < eligible_notifiers b
             \<and> eligible_notifiers b \<le> length (filter is_register_notifier cs)
          then 1 else 0)"
proof (intro conjI allI impI)
  show "to_create_notifiers_count (started b ids) = eligible_notifiers b"
    by (simp add: started_state)
next
  fix k assume k: "k < length cs"
  have "length (filter is_register_notifier (take (Suc k) cs))
          = length (filter is_register_notifier (take k cs))
            + (if is_register_notifier (cs ! k) then 1 else 0)"
    using k by (simp add: take_Suc_conv_app_nth)
  then show "count_list (steps cs (started b ids) ! k) ProcessPendingNotifications
           = (if is_register_notifier (cs ! k)
                 \<and> length (filter is_register_notifier (take (Suc k) cs)) = eligible_notifiers b
              then 1 else 0)"
    using k
    by (simp add: steps_nth exec_flush final_length_notifiers final_count started_state
        del: exec.simps)
next
  show "count_list (concat (steps cs (started b ids))) ProcessPendingNotifications
       = (if 0 < eligible_notifiers b
             \<and> eligible_notifiers b \<le> length (filter is_register_notifier cs)
          then 1 else 0)"
    by (simp add: flush_total started_state)
qed

theorem flush_fires_once_at_Nth_witness:
  "eligible_notifiers
     \<lparr>is_backtesting_enabled = False, bot_api_is_none = True, get_available_interfaces = [],
      get_available_notifiers =
        [\<lparr>get_name = ''telegram'', REQUIRED_SERVICES = [], is_enabled = True,
          is_enabled_in_config = True, is_enabled_in_backtesting = False\<rparr>,
         \<lparr>get_name = ''web'', REQUIRED_SERVICES = [], is_enabled = True,
          is_enabled_in_config = True, is_enabled_in_backtesting = False\<rparr>],
      is_tentacle_activated_in_tentacles_setup_config = (\<lambda>name. True),
      start_interfaces_result = (\<lambda>l :: nat option list. l)\<rparr> = 2
   \<and> count_list
        (steps [RegisterNotifier (Some (1::nat)), RegisterNotifier (Some 2),
                RegisterNotifier (Some 3)]
           (started
              \<lparr>is_backtesting_enabled = False, bot_api_is_none = True,
               get_available_interfaces = [],
               get_available_notifiers =
                 [\<lparr>get_name = ''telegram'', REQUIRED_SERVICES = [], is_enabled = True,
                   is_enabled_in_config = True, is_enabled_in_backtesting = False\<rparr>,
                  \<lparr>get_name = ''web'', REQUIRED_SERVICES = [], is_enabled = True,
                   is_enabled_in_config = True, is_enabled_in_backtesting = False\<rparr>],
               is_tentacle_activated_in_tentacles_setup_config = (\<lambda>name. True),
               start_interfaces_result = (\<lambda>l. l)\<rparr>
              ([] :: string list)) ! 1)
        ProcessPendingNotifications = 1
   \<and> count_list
        (concat
          (steps [RegisterNotifier (Some (1::nat)), RegisterNotifier (Some 2),
                  RegisterNotifier (Some 3)]
             (started
                \<lparr>is_backtesting_enabled = False, bot_api_is_none = True,
                 get_available_interfaces = [],
                 get_available_notifiers =
                   [\<lparr>get_name = ''telegram'', REQUIRED_SERVICES = [], is_enabled = True,
                     is_enabled_in_config = True, is_enabled_in_backtesting = False\<rparr>,
                    \<lparr>get_name = ''web'', REQUIRED_SERVICES = [], is_enabled = True,
                     is_enabled_in_config = True, is_enabled_in_backtesting = False\<rparr>],
                 is_tentacle_activated_in_tentacles_setup_config = (\<lambda>name. True),
                 start_interfaces_result = (\<lambda>l. l)\<rparr>
                ([] :: string list))))
        ProcessPendingNotifications = 1"
proof -
  let ?b = "\<lparr>is_backtesting_enabled = False, bot_api_is_none = True,
             get_available_interfaces = [],
             get_available_notifiers =
               [\<lparr>get_name = ''telegram'', REQUIRED_SERVICES = [], is_enabled = True,
                 is_enabled_in_config = True, is_enabled_in_backtesting = False\<rparr>,
                \<lparr>get_name = ''web'', REQUIRED_SERVICES = [], is_enabled = True,
                 is_enabled_in_config = True, is_enabled_in_backtesting = False\<rparr>],
             is_tentacle_activated_in_tentacles_setup_config = (\<lambda>name. True),
             start_interfaces_result = (\<lambda>l :: nat option list. l)\<rparr>"
  let ?cs = "[RegisterNotifier (Some (1::nat)), RegisterNotifier (Some 2),
              RegisterNotifier (Some 3)] :: (nat, string) call list"
  have N: "eligible_notifiers ?b = 2"
    by (simp add: eligible_notifiers_def is_notifier_relevant_def)
  have k: "(1::nat) < length ?cs" by simp
  have taken: "length (filter is_register_notifier (take (Suc 1) ?cs)) = 2" by simp
  have total: "length (filter is_register_notifier ?cs) = 3" by simp
  from flush_fires_once_at_Nth [of ?b "[]" ?cs] k
  have "count_list (steps ?cs (started ?b []) ! 1) ProcessPendingNotifications
          = (if is_register_notifier (?cs ! 1)
                \<and> length (filter is_register_notifier (take (Suc 1) ?cs)) = eligible_notifiers ?b
             then 1 else 0)"
    and "count_list (concat (steps ?cs (started ?b []))) ProcessPendingNotifications
          = (if 0 < eligible_notifiers ?b
                \<and> eligible_notifiers ?b \<le> length (filter is_register_notifier ?cs)
             then 1 else 0)"
    by blast+
  with N taken total show ?thesis by simp
qed

subsection \<open>Delivery of the exchange handles\<close>

lemma count_replay:
  "count_list (map (SendExchangeRegistration y) ids) (SendExchangeRegistration x e)
     = (if y = x then count_list ids e else 0)"
  by (induction ids) auto











subsection \<open>Eligibility\<close>

text \<open>
  C4. A class is interface-eligible exactly when it is enabled, activated in the tentacles
  setup, every required service is enabled, and backtesting is off or the class is enabled in
  backtesting. It is notifier-eligible exactly when it is enabled in the configuration,
  activated, every required service is enabled, and backtesting is off. A class with a
  disabled required service is eligible for neither role.
\<close>

theorem eligibility_rules:
  "(is_interface_relevant b c bt \<longleftrightarrow>
      is_enabled c
      \<and> is_tentacle_activated_in_tentacles_setup_config b (get_name c)
      \<and> (\<forall>sv \<in> set (REQUIRED_SERVICES c). get_is_enabled sv)
      \<and> (\<not> bt \<or> is_enabled_in_backtesting c))
   \<and> (is_notifier_relevant b c bt \<longleftrightarrow>
      is_enabled_in_config c
      \<and> is_tentacle_activated_in_tentacles_setup_config b (get_name c)
      \<and> (\<forall>sv \<in> set (REQUIRED_SERVICES c). get_is_enabled sv)
      \<and> \<not> bt)
   \<and> ((\<exists>sv \<in> set (REQUIRED_SERVICES c). \<not> get_is_enabled sv) \<longrightarrow>
        \<not> is_interface_relevant b c bt \<and> \<not> is_notifier_relevant b c bt)"
  by (auto simp: is_interface_relevant_def is_notifier_relevant_def list_all_iff)

theorem eligibility_rules_witness:
  "(\<exists>sv \<in> set [\<lparr>service_name = ''telegram'', get_is_enabled = False\<rparr>].
       \<not> get_is_enabled sv)
   \<and> \<not> is_interface_relevant
         \<lparr>is_backtesting_enabled = False, bot_api_is_none = True,
          get_available_interfaces = [], get_available_notifiers = [],
          is_tentacle_activated_in_tentacles_setup_config = (\<lambda>name. True),
          start_interfaces_result = (\<lambda>l :: nat option list. l)\<rparr>
         \<lparr>get_name = ''telegram'',
          REQUIRED_SERVICES = [\<lparr>service_name = ''telegram'', get_is_enabled = False\<rparr>],
          is_enabled = True, is_enabled_in_config = True, is_enabled_in_backtesting = True\<rparr>
         False
   \<and> \<not> is_notifier_relevant
         \<lparr>is_backtesting_enabled = False, bot_api_is_none = True,
          get_available_interfaces = [], get_available_notifiers = [],
          is_tentacle_activated_in_tentacles_setup_config = (\<lambda>name. True),
          start_interfaces_result = (\<lambda>l :: nat option list. l)\<rparr>
         \<lparr>get_name = ''telegram'',
          REQUIRED_SERVICES = [\<lparr>service_name = ''telegram'', get_is_enabled = False\<rparr>],
          is_enabled = True, is_enabled_in_config = True, is_enabled_in_backtesting = True\<rparr>
         False"
proof -
  let ?b = "\<lparr>is_backtesting_enabled = False, bot_api_is_none = True,
             get_available_interfaces = [], get_available_notifiers = [],
             is_tentacle_activated_in_tentacles_setup_config = (\<lambda>name. True),
             start_interfaces_result = (\<lambda>l :: nat option list. l)\<rparr>"
  let ?c = "\<lparr>get_name = ''telegram'',
             REQUIRED_SERVICES = [\<lparr>service_name = ''telegram'', get_is_enabled = False\<rparr>],
             is_enabled = True, is_enabled_in_config = True, is_enabled_in_backtesting = True\<rparr>"
  have off: "\<exists>sv \<in> set (REQUIRED_SERVICES ?c). \<not> get_is_enabled sv" by simp
  from eligibility_rules [of ?b ?c False] off
  have "\<not> is_interface_relevant ?b ?c False \<and> \<not> is_notifier_relevant ?b ?c False"
    by blast
  with off show ?thesis by simp
qed

subsection \<open>Registering an interface twice\<close>

text \<open>
  C5, as the code has it. \<open>register_interface\<close> appends to a list: for an instance that is
  not \<open>None\<close>, a second call with the same instance leaves the set of elements of the list as
  it was after the first call, but the list holds the instance once more; and every call
  replays each id of \<open>exchange_manager_ids\<close> to the instance, so two calls deliver a handle
  twice as often as the ids list holds it.
\<close>

theorem register_interface_appends_and_replays:
  "register_interface (Some i) s
     = (map (SendExchangeRegistration (Some i)) (exchange_manager_ids s),
        s\<lparr>interfaces := interfaces s @ [Some i]\<rparr>)
   \<and> set (interfaces (snd (register_interface (Some i) (snd (register_interface (Some i) s)))))
       = set (interfaces (snd (register_interface (Some i) s)))
   \<and> interfaces (snd (register_interface (Some i) (snd (register_interface (Some i) s))))
       = interfaces s @ [Some i, Some i]
   \<and> count_list
        (fst (register_interface (Some i) s)
         @ fst (register_interface (Some i) (snd (register_interface (Some i) s))))
        (SendExchangeRegistration (Some i) e)
       = 2 * count_list (exchange_manager_ids s) e"
  by (simp add: register_interface_def Let_def register_existing_exchanges_def
      register_exchange_msg_def count_replay)

text \<open>
  The claim C5 as written fails: with the handle \<open>binance-1\<close> known, registering the instance 1
  twice replays the handle to it twice, and the list holds the instance twice.
\<close>

theorem register_interface_twice_counterexample:
  "\<not> count_list
        (fst (register_interface (Some (1::nat)) (init_producer [''binance-1'']))
         @ fst (register_interface (Some 1)
                  (snd (register_interface (Some 1) (init_producer [''binance-1''])))))
        (SendExchangeRegistration (Some 1) ''binance-1'') \<le> 1
   \<and> interfaces (snd (register_interface (Some (1::nat))
                        (snd (register_interface (Some 1) (init_producer [''binance-1''])))))
       = [Some 1, Some 1]"
  by (simp add: register_interface_def Let_def register_existing_exchanges_def
      register_exchange_msg_def init_producer_def)

subsection \<open>Stopping\<close>

text \<open>
  C8, as the code has it. \<open>stop\<close> hands the list of interfaces to
  \<open>service_managers.stop_interfaces\<close> and does nothing else: the notifiers are not handed over,
  and both lists are left as they were.
\<close>

theorem stop_signals_interfaces_only:
  "fst (stop s) = [StopInterfaces (interfaces s)] \<and> snd (stop s) = s"
  by (simp add: stop_def)

text \<open>
  The claim C8 as written fails: after \<open>stop\<close> on a producer with one live interface the list
  of interfaces is not empty.
\<close>

theorem stop_clears_live_set_counterexample:
  "\<not> interfaces (snd (stop \<lparr>interfaces = [Some (1::nat)], notifiers = [Some 2],
                              to_create_notifiers_count = 1,
                              exchange_manager_ids = [''binance-1'']\<rparr>)) = []"
  by (simp add: stop_def)

subsection \<open>The guard on \<open>None\<close>\<close>

text \<open>
  C10. \<open>register_interface\<close> with \<open>None\<close> changes nothing and sends nothing. \<open>register_notifier\<close>
  has no such guard: it appends \<open>None\<close>, replays the known exchange ids to it, and the appended
  \<open>None\<close> counts toward the flush threshold (the flush fires exactly when the list, \<open>None\<close>
  included, reaches the counter).
\<close>

theorem register_none_guard:
  "register_interface None s = ([], s)
   \<and> snd (register_notifier None s) = s\<lparr>notifiers := notifiers s @ [None]\<rparr>
   \<and> length (notifiers (snd (register_notifier None s))) = Suc (length (notifiers s))
   \<and> fst (register_notifier None s)
       = map (SendExchangeRegistration None) (exchange_manager_ids s)
         @ (if Suc (length (notifiers s)) = to_create_notifiers_count s
            then [ProcessPendingNotifications] else [])"
  by (simp add: register_interface_def register_notifier_def Let_def
      register_existing_exchanges_def register_exchange_msg_def)

section \<open>Properties of the startup arguments\<close>

lemma set_item_dom: "set_item section key v config = Inr c \<Longrightarrow> dom c = dom config"
  by (auto simp: set_item_def split: option.splits if_splits)


lemma and_then_simps:
  "and_then (Inl e) f = Inl e" "and_then (Inr c) f = f c" "and_then r Inr = r"
  by (simp_all add: and_then_def split: sum.splits)

lemma and_then_assoc: "and_then (and_then r f) g = and_then r (\<lambda>c. and_then (f c) g)"
  by (simp add: and_then_def split: sum.splits)

lemma assign_all_append:
  "assign_all (xs @ ys) config = and_then (assign_all xs config) (assign_all ys)"
proof (induction xs arbitrary: config)
  case Nil
  then show ?case by (simp add: and_then_simps)
next
  case (Cons w xs)
  obtain a b v where w: "w = (a, b, v)" by (cases w)
  show ?case
    by (cases "set_item a b v config") (simp_all add: w and_then_simps Cons.IH)
qed

lemma assign_all_Nil: "assign_all [] = Inr"
  by (rule ext) simp

lemma assign_one: "assign_all [(a, b, v)] = set_item a b v"
  by (rule ext) (simp add: and_then_simps assign_all_Nil)



lemma update_as_assignments:
  "update_config_with_args K args config = assign_all (assignments K args) config"
proof -
  define F where "F = (case backtesting_files args of
              Some (f # fs) \<Rightarrow>
                [(CONFIG_BACKTESTING K, CONFIG_BACKTESTING_DATA_FILES K, VFiles (f # fs))]
            | _ \<Rightarrow> [])"
  define T where "T = [(CONFIG_BACKTESTING K, CONFIG_ENABLED_OPTION K, VBool True),
              (CONFIG_TRADER K, CONFIG_ENABLED_OPTION K, VBool False),
              (CONFIG_SIMULATOR K, CONFIG_ENABLED_OPTION K, VBool True)]"
  define A where "A = (if backtesting args then F @ T else [])"
  define B where "B = (if simulate args
        then [(CONFIG_TRADER K, CONFIG_ENABLED_OPTION K, VBool False),
              (CONFIG_SIMULATOR K, CONFIG_ENABLED_OPTION K, VBool True)]
        else [])"
  define C where "C = (case risk args of
          None \<Rightarrow> []
        | Some r \<Rightarrow>
            if float_less (Finite 0) r \<and> float_le r (Finite 1)
            then [(CONFIG_TRADING K, CONFIG_TRADER_RISK K, VFloat r)]
            else [])"
  have split: "assignments K args = A @ B @ C"
    by (simp add: assignments_def A_def B_def C_def F_def T_def)
  have f: "assign_all F config
            = (case backtesting_files args of
                 Some (f # fs) \<Rightarrow>
                   set_item (CONFIG_BACKTESTING K) (CONFIG_BACKTESTING_DATA_FILES K)
                     (VFiles (f # fs)) config
               | _ \<Rightarrow> Inr config)"
    by (simp add: F_def and_then_simps assign_all_Nil split: option.splits list.splits)
  have t: "assign_all T c
            = and_then
                (set_item (CONFIG_BACKTESTING K) (CONFIG_ENABLED_OPTION K) (VBool True) c)
                (\<lambda>c. and_then
                   (set_item (CONFIG_TRADER K) (CONFIG_ENABLED_OPTION K) (VBool False) c)
                   (set_item (CONFIG_SIMULATOR K) (CONFIG_ENABLED_OPTION K) (VBool True)))" for c
    by (cases "set_item (CONFIG_BACKTESTING K) (CONFIG_ENABLED_OPTION K) (VBool True) c")
       (simp_all add: T_def and_then_simps assign_one)
  have a: "assign_all A config
            = (if backtesting args
               then and_then
                  (and_then
                     (and_then
                        (case backtesting_files args of
                           Some (f # fs) \<Rightarrow>
                             set_item (CONFIG_BACKTESTING K) (CONFIG_BACKTESTING_DATA_FILES K)
                               (VFiles (f # fs)) config
                         | _ \<Rightarrow> Inr config)
                        (set_item (CONFIG_BACKTESTING K) (CONFIG_ENABLED_OPTION K) (VBool True)))
                     (set_item (CONFIG_TRADER K) (CONFIG_ENABLED_OPTION K) (VBool False)))
                  (set_item (CONFIG_SIMULATOR K) (CONFIG_ENABLED_OPTION K) (VBool True))
               else Inr config)"
  proof (cases "backtesting args")
    case True
    have "assign_all (F @ T) config = and_then (assign_all F config) (assign_all T)"
      by (rule assign_all_append)
    also have "assign_all T = (\<lambda>c. and_then
                (set_item (CONFIG_BACKTESTING K) (CONFIG_ENABLED_OPTION K) (VBool True) c)
                (\<lambda>c. and_then
                   (set_item (CONFIG_TRADER K) (CONFIG_ENABLED_OPTION K) (VBool False) c)
                   (set_item (CONFIG_SIMULATOR K) (CONFIG_ENABLED_OPTION K) (VBool True))))"
      by (rule ext) (rule t)
    finally show ?thesis
      using True by (simp only: A_def f and_then_assoc if_True)
  next
    case False
    then show ?thesis by (simp add: A_def)
  qed
  have b: "assign_all B
            = (\<lambda>c. if simulate args
               then and_then
                      (set_item (CONFIG_TRADER K) (CONFIG_ENABLED_OPTION K) (VBool False) c)
                      (set_item (CONFIG_SIMULATOR K) (CONFIG_ENABLED_OPTION K) (VBool True))
               else Inr c)"
    by (rule ext) (simp add: B_def and_then_simps assign_one)
  have c: "assign_all C
            = (\<lambda>c. case risk args of
                 None \<Rightarrow> Inr c
               | Some r \<Rightarrow>
                   if float_less (Finite 0) r \<and> float_le r (Finite 1)
                   then set_item (CONFIG_TRADING K) (CONFIG_TRADER_RISK K) (VFloat r) c
                   else Inr c)"
    by (rule ext) (simp add: C_def and_then_simps assign_all_Nil split: option.splits)
  have bc: "assign_all (B @ C) = (\<lambda>c. and_then (assign_all B c) (assign_all C))"
    by (rule ext) (rule assign_all_append)
  have "assign_all (A @ B @ C) config = and_then (assign_all A config) (assign_all (B @ C))"
    by (rule assign_all_append)
  also have "\<dots> = and_then (and_then (assign_all A config) (assign_all B)) (assign_all C)"
    by (simp only: bc and_then_assoc)
  finally show ?thesis
    unfolding split update_config_with_args_def by (simp only: a b c)
qed

lemma assign_all_dom: "assign_all ws config = Inr c \<Longrightarrow> dom c = dom config"
proof (induction ws arbitrary: config)
  case Nil
  then show ?case by simp
next
  case (Cons w ws)
  obtain a b v where w: "w = (a, b, v)" by (cases w)
  from Cons.prems obtain c1 where 1: "set_item a b v config = Inr c1"
    and 2: "assign_all ws c1 = Inr c"
    by (cases "set_item a b v config") (simp_all add: w and_then_simps)
  from Cons.IH [OF 2] set_item_dom [OF 1] show ?case by simp
qed

lemma assign_all_returns:
  "\<forall>w \<in> set ws. fst w \<in> dom config \<Longrightarrow> \<exists>c. assign_all ws config = Inr c"
proof (induction ws arbitrary: config)
  case Nil
  then show ?case by simp
next
  case (Cons w ws)
  obtain a b v where w: "w = (a, b, v)" by (cases w)
  from Cons.prems w have "a \<in> dom config" by simp
  then obtain c1 where 1: "set_item a b v config = Inr c1"
    by (auto simp: set_item_def)
  from Cons.prems set_item_dom [OF 1] have "\<forall>w \<in> set ws. fst w \<in> dom c1" by simp
  from Cons.IH [OF this] show ?case by (simp add: w 1 and_then_simps)
qed

lemma set_item_get:
  "set_item a b v config = Inr c \<Longrightarrow>
   get_item c s k = (if (s, k) = (a, b) then Some v else get_item config s k)"
  by (auto simp: set_item_def get_item_def split: option.splits if_splits)

text \<open>After the assignments a path holds the value of the last assignment to it, and every
  other path what it held before.\<close>

lemma assign_all_get:
  "assign_all ws config = Inr c \<Longrightarrow>
   get_item c s k
     = (case map_of (rev (map (\<lambda>(a, b, v). ((a, b), v)) ws)) (s, k) of
          Some v \<Rightarrow> Some v
        | None \<Rightarrow> get_item config s k)"
proof (induction ws arbitrary: config)
  case Nil
  then show ?case by simp
next
  case (Cons w ws)
  obtain a b v where w: "w = (a, b, v)" by (cases w)
  from Cons.prems obtain c1 where 1: "set_item a b v config = Inr c1"
    and 2: "assign_all ws c1 = Inr c"
    by (cases "set_item a b v config") (simp_all add: w and_then_simps)
  show ?case
    using Cons.IH [OF 2] set_item_get [OF 1, of s k]
    by (auto simp: w map_add_def split: option.splits)
qed

lemma config_eqI:
  assumes "dom c = dom d" and "\<And>s k. get_item c s k = get_item d s k"
  shows "c = (d :: config_dict)"
proof
  fix s
  show "c s = d s"
  proof (cases "c s")
    case None
    with assms(1) show ?thesis by (metis domIff)
  next
    case (Some x)
    with assms(1) obtain y where y: "d s = Some y" by (metis domIff not_Some_eq)
    have "x = y"
    proof
      fix k from assms(2) [of s k] Some y show "x k = y k" by (simp add: get_item_def)
    qed
    with Some y show ?thesis by simp
  qed
qed

lemma assign_all_idem:
  assumes "assign_all ws config = Inr c"
  shows "assign_all ws c = Inr c"
proof -
  have "\<forall>w \<in> set ws. fst w \<in> dom config"
    using assms
  proof (induction ws arbitrary: config)
    case Nil
    then show ?case by simp
  next
    case (Cons w ws)
    obtain a b v where w: "w = (a, b, v)" by (cases w)
    from Cons.prems obtain c1 where 1: "set_item a b v config = Inr c1"
      and 2: "assign_all ws c1 = Inr c"
      by (cases "set_item a b v config") (simp_all add: w and_then_simps)
    from 1 have "a \<in> dom config" by (auto simp: set_item_def split: option.splits)
    with Cons.IH [OF 2] set_item_dom [OF 1] show ?case by (simp add: w)
  qed
  with assign_all_dom [OF assms] have "\<forall>w \<in> set ws. fst w \<in> dom c" by simp
  from assign_all_returns [OF this] obtain d where d: "assign_all ws c = Inr d" by blast
  have "d = c"
  proof (rule config_eqI)
    show "dom d = dom c" by (rule assign_all_dom [OF d])
  next
    fix s k
    show "get_item d s k = get_item c s k"
      using assign_all_get [OF d, of s k] assign_all_get [OF assms, of s k]
      by (simp split: option.splits)
  qed
  with d show ?thesis by simp
qed

lemma assignments_sections:
  "sections_present K config \<Longrightarrow> \<forall>w \<in> set (assignments K args). fst w \<in> dom config"
  by (auto simp: assignments_def sections_present_def split: option.splits list.splits if_splits)

lemma update_returns:
  "sections_present K config \<Longrightarrow> \<exists>c. update_config_with_args K args config = Inr c"
  by (simp add: update_as_assignments assign_all_returns [OF assignments_sections])

lemma in_range_finite:
  "(float_less (Finite 0) (Finite x) \<and> float_le (Finite x) (Finite 1)) = (0 < x \<and> x \<le> 1)"
  "\<not> (float_less (Finite 0) NaN \<and> float_le NaN (Finite 1))"
  "\<not> (float_less (Finite 0) PosInf \<and> float_le PosInf (Finite 1))"
  "\<not> (float_less (Finite 0) NegInf \<and> float_le NegInf (Finite 1))"
  by simp_all

lemma risk_path:
  assumes "keys_distinct K"
  shows "map_of (rev (map (\<lambda>(a, b, v). ((a, b), v)) (assignments K args)))
           (CONFIG_TRADING K, CONFIG_TRADER_RISK K)
         = (case risk args of
              None \<Rightarrow> None
            | Some r \<Rightarrow> if float_less (Finite 0) r \<and> float_le r (Finite 1)
                        then Some (VFloat r) else None)"
  using assms
  by (auto simp: assignments_def keys_distinct_def split: option.splits list.splits)

lemma trader_path:
  assumes "keys_distinct K" and "backtesting args"
  shows "map_of (rev (map (\<lambda>(a, b, v). ((a, b), v)) (assignments K args)))
           (CONFIG_TRADER K, CONFIG_ENABLED_OPTION K) = Some (VBool False)"
  using assms
  by (auto simp: assignments_def keys_distinct_def split: option.splits list.splits)

lemma simulator_path:
  assumes "keys_distinct K" and "backtesting args"
  shows "map_of (rev (map (\<lambda>(a, b, v). ((a, b), v)) (assignments K args)))
           (CONFIG_SIMULATOR K, CONFIG_ENABLED_OPTION K) = Some (VBool True)"
  using assms
  by (auto simp: assignments_def keys_distinct_def split: option.splits list.splits)

text \<open>
  C6. Let the four sections exist and the key constants be different strings. Then
  \<open>update_config_with_args\<close> returns, and for a risk override r with 0 < r \<le> 1 the risk
  stored in the trading section is r; for r \<le> 0, for r > 1, for an infinity or NaN, and
  when no override is given, the trading section holds the risk it held before.
\<close>

theorem risk_override:
  assumes "keys_distinct K" and "sections_present K config"
  shows "\<exists>c. update_config_with_args K args config = Inr c
           \<and> (\<forall>x. risk args = Some (Finite x) \<and> 0 < x \<and> x \<le> 1 \<longrightarrow>
                  get_item c (CONFIG_TRADING K) (CONFIG_TRADER_RISK K)
                    = Some (VFloat (Finite x)))
           \<and> (\<forall>x. risk args = Some (Finite x) \<and> (x \<le> 0 \<or> 1 < x) \<longrightarrow>
                  get_item c (CONFIG_TRADING K) (CONFIG_TRADER_RISK K)
                    = get_item config (CONFIG_TRADING K) (CONFIG_TRADER_RISK K))
           \<and> (risk args \<in> {None, Some NaN, Some PosInf, Some NegInf} \<longrightarrow>
                  get_item c (CONFIG_TRADING K) (CONFIG_TRADER_RISK K)
                    = get_item config (CONFIG_TRADING K) (CONFIG_TRADER_RISK K))"
proof -
  from update_returns [OF assms(2)] obtain c
    where c: "update_config_with_args K args config = Inr c" by blast
  then have "assign_all (assignments K args) config = Inr c"
    by (simp add: update_as_assignments)
  from assign_all_get [OF this, of "CONFIG_TRADING K" "CONFIG_TRADER_RISK K"]
  have "get_item c (CONFIG_TRADING K) (CONFIG_TRADER_RISK K)
          = (case risk args of
               None \<Rightarrow> get_item config (CONFIG_TRADING K) (CONFIG_TRADER_RISK K)
             | Some r \<Rightarrow> if float_less (Finite 0) r \<and> float_le r (Finite 1)
                         then Some (VFloat r)
                         else get_item config (CONFIG_TRADING K) (CONFIG_TRADER_RISK K))"
    by (simp add: risk_path [OF assms(1)] split: option.splits)
  with c show ?thesis by (auto split: option.splits)
qed

theorem risk_override_witness:
  "keys_distinct \<lparr>CONFIG_BACKTESTING = ''backtesting'', CONFIG_BACKTESTING_DATA_FILES = ''files'',
             CONFIG_ENABLED_OPTION = ''enabled'', CONFIG_TRADER = ''trader'',
             CONFIG_SIMULATOR = ''trader-simulator'', CONFIG_TRADING = ''trading'',
             CONFIG_TRADER_RISK = ''risk''\<rparr>
   \<and> sections_present \<lparr>CONFIG_BACKTESTING = ''backtesting'', CONFIG_BACKTESTING_DATA_FILES = ''files'',
             CONFIG_ENABLED_OPTION = ''enabled'', CONFIG_TRADER = ''trader'',
             CONFIG_SIMULATOR = ''trader-simulator'', CONFIG_TRADING = ''trading'',
             CONFIG_TRADER_RISK = ''risk''\<rparr>
        [''backtesting'' \<mapsto> [''enabled'' \<mapsto> VBool False],
              ''trader'' \<mapsto> [''enabled'' \<mapsto> VBool True],
              ''trader-simulator'' \<mapsto> [''enabled'' \<mapsto> VBool False],
              ''trading'' \<mapsto> [''risk'' \<mapsto> VFloat (Finite 1)]]
   \<and> (\<exists>c. update_config_with_args \<lparr>CONFIG_BACKTESTING = ''backtesting'', CONFIG_BACKTESTING_DATA_FILES = ''files'',
             CONFIG_ENABLED_OPTION = ''enabled'', CONFIG_TRADER = ''trader'',
             CONFIG_SIMULATOR = ''trader-simulator'', CONFIG_TRADING = ''trading'',
             CONFIG_TRADER_RISK = ''risk''\<rparr>
              \<lparr>backtesting = False, backtesting_files = None, simulate = False,
               risk = Some (Finite (1 / 2))\<rparr>
              [''backtesting'' \<mapsto> [''enabled'' \<mapsto> VBool False],
              ''trader'' \<mapsto> [''enabled'' \<mapsto> VBool True],
              ''trader-simulator'' \<mapsto> [''enabled'' \<mapsto> VBool False],
              ''trading'' \<mapsto> [''risk'' \<mapsto> VFloat (Finite 1)]] = Inr c
          \<and> get_item c ''trading'' ''risk'' = Some (VFloat (Finite (1 / 2))))"
proof -
  let ?K = "\<lparr>CONFIG_BACKTESTING = ''backtesting'', CONFIG_BACKTESTING_DATA_FILES = ''files'',
             CONFIG_ENABLED_OPTION = ''enabled'', CONFIG_TRADER = ''trader'',
             CONFIG_SIMULATOR = ''trader-simulator'', CONFIG_TRADING = ''trading'',
             CONFIG_TRADER_RISK = ''risk''\<rparr>"
  let ?config = "[''backtesting'' \<mapsto> [''enabled'' \<mapsto> VBool False],
              ''trader'' \<mapsto> [''enabled'' \<mapsto> VBool True],
              ''trader-simulator'' \<mapsto> [''enabled'' \<mapsto> VBool False],
              ''trading'' \<mapsto> [''risk'' \<mapsto> VFloat (Finite 1)]]"
  let ?args = "\<lparr>backtesting = False, backtesting_files = None, simulate = False,
                risk = Some (Finite (1 / 2))\<rparr>"
  have k: "keys_distinct ?K" by (simp add: keys_distinct_def)
  have p: "sections_present ?K ?config" by (simp add: sections_present_def)
  from risk_override [OF k p, of ?args] obtain c
    where c: "update_config_with_args ?K ?args ?config = Inr c"
      and r: "\<forall>x. risk ?args = Some (Finite x) \<and> 0 < x \<and> x \<le> 1 \<longrightarrow>
                get_item c (CONFIG_TRADING ?K) (CONFIG_TRADER_RISK ?K)
                  = Some (VFloat (Finite x))"
    by blast
  from r have "get_item c ''trading'' ''risk'' = Some (VFloat (Finite (1 / 2)))" by simp
  with k p c show ?thesis by blast
qed

text \<open>
  C7. Let the four sections exist and the key constants be different strings. With
  backtesting on, \<open>update_config_with_args\<close> returns a configuration in which the trader is
  disabled and the simulator enabled, whatever the two flags were before, and applying the
  same arguments to that configuration returns it unchanged.
\<close>

theorem backtesting_forces_simulator:
  assumes "backtesting args" and "keys_distinct K" and "sections_present K config"
  shows "\<exists>c. update_config_with_args K args config = Inr c
           \<and> get_item c (CONFIG_TRADER K) (CONFIG_ENABLED_OPTION K) = Some (VBool False)
           \<and> get_item c (CONFIG_SIMULATOR K) (CONFIG_ENABLED_OPTION K) = Some (VBool True)
           \<and> update_config_with_args K args c = Inr c"
proof -
  from update_returns [OF assms(3)] obtain c
    where c: "update_config_with_args K args config = Inr c" by blast
  then have a: "assign_all (assignments K args) config = Inr c"
    by (simp add: update_as_assignments)
  have "get_item c (CONFIG_TRADER K) (CONFIG_ENABLED_OPTION K) = Some (VBool False)"
    using assign_all_get [OF a, of "CONFIG_TRADER K" "CONFIG_ENABLED_OPTION K"]
    by (simp add: trader_path [OF assms(2,1)])
  moreover have "get_item c (CONFIG_SIMULATOR K) (CONFIG_ENABLED_OPTION K) = Some (VBool True)"
    using assign_all_get [OF a, of "CONFIG_SIMULATOR K" "CONFIG_ENABLED_OPTION K"]
    by (simp add: simulator_path [OF assms(2,1)])
  moreover have "update_config_with_args K args c = Inr c"
    using assign_all_idem [OF a] by (simp add: update_as_assignments)
  ultimately show ?thesis using c by blast
qed

theorem backtesting_forces_simulator_witness:
  "backtesting \<lparr>backtesting = True, backtesting_files = Some [''data.data''],
                simulate = False, risk = None\<rparr>
   \<and> keys_distinct \<lparr>CONFIG_BACKTESTING = ''backtesting'', CONFIG_BACKTESTING_DATA_FILES = ''files'',
             CONFIG_ENABLED_OPTION = ''enabled'', CONFIG_TRADER = ''trader'',
             CONFIG_SIMULATOR = ''trader-simulator'', CONFIG_TRADING = ''trading'',
             CONFIG_TRADER_RISK = ''risk''\<rparr>
   \<and> sections_present \<lparr>CONFIG_BACKTESTING = ''backtesting'', CONFIG_BACKTESTING_DATA_FILES = ''files'',
             CONFIG_ENABLED_OPTION = ''enabled'', CONFIG_TRADER = ''trader'',
             CONFIG_SIMULATOR = ''trader-simulator'', CONFIG_TRADING = ''trading'',
             CONFIG_TRADER_RISK = ''risk''\<rparr>
        [''backtesting'' \<mapsto> [''enabled'' \<mapsto> VBool False],
              ''trader'' \<mapsto> [''enabled'' \<mapsto> VBool True],
              ''trader-simulator'' \<mapsto> [''enabled'' \<mapsto> VBool False],
              ''trading'' \<mapsto> [''risk'' \<mapsto> VFloat (Finite 1)]]
   \<and> (\<exists>c. update_config_with_args \<lparr>CONFIG_BACKTESTING = ''backtesting'', CONFIG_BACKTESTING_DATA_FILES = ''files'',
             CONFIG_ENABLED_OPTION = ''enabled'', CONFIG_TRADER = ''trader'',
             CONFIG_SIMULATOR = ''trader-simulator'', CONFIG_TRADING = ''trading'',
             CONFIG_TRADER_RISK = ''risk''\<rparr>
              \<lparr>backtesting = True, backtesting_files = Some [''data.data''],
               simulate = False, risk = None\<rparr>
              [''backtesting'' \<mapsto> [''enabled'' \<mapsto> VBool False],
              ''trader'' \<mapsto> [''enabled'' \<mapsto> VBool True],
              ''trader-simulator'' \<mapsto> [''enabled'' \<mapsto> VBool False],
              ''trading'' \<mapsto> [''risk'' \<mapsto> VFloat (Finite 1)]] = Inr c
          \<and> get_item c ''trader'' ''enabled'' = Some (VBool False)
          \<and> get_item c ''trader-simulator'' ''enabled'' = Some (VBool True)
          \<and> update_config_with_args \<lparr>CONFIG_BACKTESTING = ''backtesting'', CONFIG_BACKTESTING_DATA_FILES = ''files'',
             CONFIG_ENABLED_OPTION = ''enabled'', CONFIG_TRADER = ''trader'',
             CONFIG_SIMULATOR = ''trader-simulator'', CONFIG_TRADING = ''trading'',
             CONFIG_TRADER_RISK = ''risk''\<rparr>
               \<lparr>backtesting = True, backtesting_files = Some [''data.data''],
                simulate = False, risk = None\<rparr> c = Inr c)"
proof -
  let ?K = "\<lparr>CONFIG_BACKTESTING = ''backtesting'', CONFIG_BACKTESTING_DATA_FILES = ''files'',
             CONFIG_ENABLED_OPTION = ''enabled'', CONFIG_TRADER = ''trader'',
             CONFIG_SIMULATOR = ''trader-simulator'', CONFIG_TRADING = ''trading'',
             CONFIG_TRADER_RISK = ''risk''\<rparr>"
  let ?config = "[''backtesting'' \<mapsto> [''enabled'' \<mapsto> VBool False],
              ''trader'' \<mapsto> [''enabled'' \<mapsto> VBool True],
              ''trader-simulator'' \<mapsto> [''enabled'' \<mapsto> VBool False],
              ''trading'' \<mapsto> [''risk'' \<mapsto> VFloat (Finite 1)]]"
  let ?args = "\<lparr>backtesting = True, backtesting_files = Some [''data.data''],
                simulate = False, risk = None\<rparr>"
  have b: "backtesting ?args" by simp
  have k: "keys_distinct ?K" by (simp add: keys_distinct_def)
  have p: "sections_present ?K ?config" by (simp add: sections_present_def)
  from backtesting_forces_simulator [OF b k p] obtain c
    where "update_config_with_args ?K ?args ?config = Inr c"
      and "get_item c (CONFIG_TRADER ?K) (CONFIG_ENABLED_OPTION ?K) = Some (VBool False)"
      and "get_item c (CONFIG_SIMULATOR ?K) (CONFIG_ENABLED_OPTION ?K) = Some (VBool True)"
      and "update_config_with_args ?K ?args c = Inr c"
    by blast
  then have "update_config_with_args ?K ?args ?config = Inr c
      \<and> get_item c ''trader'' ''enabled'' = Some (VBool False)
      \<and> get_item c ''trader-simulator'' ''enabled'' = Some (VBool True)
      \<and> update_config_with_args ?K ?args c = Inr c"
    by simp
  with b k p show ?thesis by blast
qed

section \<open>Properties of the loading of the configuration\<close>

lemma repair_calls_repair:
  "length (filter is_repair_call (fst (repair_with_default_profile E config))) = 1"
  by (simp add: repair_with_default_profile_def split: option.splits)

lemma repair_calls_read_config:
  "length (filter is_repair_call (fst (read_config E config)))
     = (if read_raises E = Some NoProfileError then 1 else 0)"
  using repair_calls_repair [of E config]
  by (auto simp: read_config_def split: option.splits prod.splits sum.splits)

lemma repair_calls_checks:
  "filter is_repair_call (fst (ensure_profile_then_validate E config)) = []"
  by (simp add: ensure_profile_then_validate_def validate_config_def
      split: option.splits prod.splits)

lemma repair_calls_startup:
  "length (filter is_repair_call (fst (create_startup_config E)))
     = (if \<not> is_config_file_empty_or_missing E \<and> read_raises E = Some NoProfileError
        then 1 else 0)"
  using repair_calls_read_config [of E Original] repair_calls_checks [of E Original]
  by (auto simp: create_startup_config_def Let_def split: option.splits prod.splits sum.splits)

lemma read_config_repaired:
  assumes "read_raises E = Some NoProfileError"
    and "set_default_profile_raises E = None" and "load_profiles_raises E = None"
    and "fresh_read_raises E = None"
  shows "read_config E config
           = ([Read config True, SetDefaultProfile config, LoadProfiles config,
               CreateConfiguration Fresh, Read Fresh False], Inr ())"
  using assms by (simp add: read_config_def repair_with_default_profile_def)

lemma checks_result:
  "snd (ensure_profile_then_validate E config)
     = (case ensure_profile_raises E of
          Some e \<Rightarrow> Inl e
        | None \<Rightarrow>
            (case validate_raises E of
               None \<Rightarrow> Inr ()
             | Some err \<Rightarrow>
                 (case migrate_from_previous_config E of
                    Inl e \<Rightarrow> Inl e
                  | Inr migrated \<Rightarrow> if migrated then Inr () else Inl ConfigError)))"
  by (simp add: ensure_profile_then_validate_def validate_config_def
      split: option.splits prod.splits)

lemma startup_after_read:
  assumes "\<not> is_config_file_empty_or_missing E" and "snd (read_config E Original) = Inr ()"
  shows "snd (create_startup_config E)
           = (case snd (ensure_profile_then_validate E Original) of
                Inl e \<Rightarrow>
                  if (e = NoProfileError \<or> e = ConfigError) \<and> \<not> tentacles_isdir E
                  then Inr (Original, False) else Inl e
              | Inr u \<Rightarrow> Inr (Original, False))"
  using assms
  by (auto simp: create_startup_config_def Let_def split: prod.splits sum.splits)

text \<open>
  C3, as the code has it. When the configuration file exists and the first read raises
  \<open>NoProfileError\<close>, the default profile is selected exactly once in the whole of
  \<open>_create_startup_config\<close> (there is no loop and no second attempt). When the calls of the
  repair return, the calls made up to the end of the repair are: the first read, the
  selection of the default profile and the loading of the profiles on the first object, the
  construction of a fresh object and its read with \<open>should_raise=False\<close>; after that the
  function returns the first object, or raises \<open>NoProfileError\<close> or \<open>ConfigError\<close> (only when
  the tentacles directory exists), or lets another exception of a collaborator through.
\<close>

theorem one_repair_attempt:
  assumes "\<not> is_config_file_empty_or_missing E" and "read_raises E = Some NoProfileError"
  shows "length (filter is_repair_call (fst (create_startup_config E))) = 1
         \<and> (set_default_profile_raises E = None \<and> load_profiles_raises E = None
              \<and> fresh_read_raises E = None \<longrightarrow>
            take 6 (fst (create_startup_config E))
              = [CreateConfiguration Original, Read Original True, SetDefaultProfile Original,
                 LoadProfiles Original, CreateConfiguration Fresh, Read Fresh False]
            \<and> (snd (create_startup_config E) = Inr (Original, False)
                \<or> tentacles_isdir E
                    \<and> (snd (create_startup_config E) = Inl NoProfileError
                        \<or> snd (create_startup_config E) = Inl ConfigError)
                \<or> (\<exists>m. snd (create_startup_config E) = Inl (OtherError m))))"
proof (intro conjI impI)
  show "length (filter is_repair_call (fst (create_startup_config E))) = 1"
    using assms by (simp add: repair_calls_startup)
next
  assume ok: "set_default_profile_raises E = None \<and> load_profiles_raises E = None
              \<and> fresh_read_raises E = None"
  then have rc: "read_config E Original
           = ([Read Original True, SetDefaultProfile Original, LoadProfiles Original,
               CreateConfiguration Fresh, Read Fresh False], Inr ())"
    using assms(2) by (simp add: read_config_repaired)
  show "take 6 (fst (create_startup_config E))
              = [CreateConfiguration Original, Read Original True, SetDefaultProfile Original,
                 LoadProfiles Original, CreateConfiguration Fresh, Read Fresh False]"
    using assms(1) rc
    by (simp add: create_startup_config_def Let_def split: prod.splits sum.splits)
  show "snd (create_startup_config E) = Inr (Original, False)
                \<or> tentacles_isdir E
                    \<and> (snd (create_startup_config E) = Inl NoProfileError
                        \<or> snd (create_startup_config E) = Inl ConfigError)
                \<or> (\<exists>m. snd (create_startup_config E) = Inl (OtherError m))"
  proof -
    from rc have "snd (read_config E Original) = Inr ()" by simp
    note r = startup_after_read [OF assms(1) this]
    show ?thesis
    proof (cases "snd (ensure_profile_then_validate E Original)")
      case (Inl e)
      with r show ?thesis by (cases e) auto
    next
      case (Inr u)
      with r show ?thesis by simp
    qed
  qed
qed

theorem one_repair_attempt_witness:
  "\<not> is_config_file_empty_or_missing
        \<lparr>is_config_file_empty_or_missing = False, init_config_raises = None,
      first_run_read_raises = None, read_raises = Some NoProfileError,
      set_default_profile_raises = None, load_profiles_raises = None,
      fresh_read_raises = None, ensure_profile_raises = None,
      validate_raises = None, migrate_from_previous_config = Inr True,
      tentacles_isdir = True\<rparr>
   \<and> read_raises
        \<lparr>is_config_file_empty_or_missing = False, init_config_raises = None,
      first_run_read_raises = None, read_raises = Some NoProfileError,
      set_default_profile_raises = None, load_profiles_raises = None,
      fresh_read_raises = None, ensure_profile_raises = None,
      validate_raises = None, migrate_from_previous_config = Inr True,
      tentacles_isdir = True\<rparr> = Some NoProfileError
   \<and> length (filter is_repair_call (fst (create_startup_config
        \<lparr>is_config_file_empty_or_missing = False, init_config_raises = None,
      first_run_read_raises = None, read_raises = Some NoProfileError,
      set_default_profile_raises = None, load_profiles_raises = None,
      fresh_read_raises = None, ensure_profile_raises = None,
      validate_raises = None, migrate_from_previous_config = Inr True,
      tentacles_isdir = True\<rparr>))) = 1
   \<and> fst (create_startup_config
        \<lparr>is_config_file_empty_or_missing = False, init_config_raises = None,
      first_run_read_raises = None, read_raises = Some NoProfileError,
      set_default_profile_raises = None, load_profiles_raises = None,
      fresh_read_raises = None, ensure_profile_raises = None,
      validate_raises = None, migrate_from_previous_config = Inr True,
      tentacles_isdir = True\<rparr>)
       = [CreateConfiguration Original, Read Original True, SetDefaultProfile Original,
          LoadProfiles Original, CreateConfiguration Fresh, Read Fresh False,
          EnsureProfile Original, Validate Original]
   \<and> snd (create_startup_config
        \<lparr>is_config_file_empty_or_missing = False, init_config_raises = None,
      first_run_read_raises = None, read_raises = Some NoProfileError,
      set_default_profile_raises = None, load_profiles_raises = None,
      fresh_read_raises = None, ensure_profile_raises = None,
      validate_raises = None, migrate_from_previous_config = Inr True,
      tentacles_isdir = True\<rparr>) = Inr (Original, False)"
proof -
  let ?E = "\<lparr>is_config_file_empty_or_missing = False, init_config_raises = None,
      first_run_read_raises = None, read_raises = Some NoProfileError,
      set_default_profile_raises = None, load_profiles_raises = None,
      fresh_read_raises = None, ensure_profile_raises = None,
      validate_raises = None, migrate_from_previous_config = Inr True,
      tentacles_isdir = True\<rparr>"
  have f: "\<not> is_config_file_empty_or_missing ?E" by simp
  have r: "read_raises ?E = Some NoProfileError" by simp
  from one_repair_attempt [OF f r]
  have "length (filter is_repair_call (fst (create_startup_config ?E))) = 1"
    by (rule conjunct1)
  moreover have "fst (create_startup_config ?E)
       = [CreateConfiguration Original, Read Original True, SetDefaultProfile Original,
          LoadProfiles Original, CreateConfiguration Fresh, Read Fresh False,
          EnsureProfile Original, Validate Original]"
    and "snd (create_startup_config ?E) = Inr (Original, False)"
    by (simp_all add: create_startup_config_def read_config_def repair_with_default_profile_def
        ensure_profile_then_validate_def validate_config_def)
  ultimately show ?thesis using f r by blast
qed

text \<open>
  The claim C3 as written fails: for a configuration whose first read raises
  \<open>NoProfileError\<close> and whose validation fails after the repair with no migration possible,
  the loading ends with \<open>ConfigError\<close>, which is neither a success nor \<open>NoProfileError\<close>.
\<close>

theorem repair_outcome_counterexample:
  "read_raises
     \<lparr>is_config_file_empty_or_missing = False, init_config_raises = None,
      first_run_read_raises = None, read_raises = Some NoProfileError,
      set_default_profile_raises = None, load_profiles_raises = None,
      fresh_read_raises = None, ensure_profile_raises = None,
      validate_raises = Some (OtherError ''invalid''),
      migrate_from_previous_config = Inr False, tentacles_isdir = True\<rparr> = Some NoProfileError
   \<and> length (filter is_repair_call (fst (create_startup_config
        \<lparr>is_config_file_empty_or_missing = False, init_config_raises = None,
      first_run_read_raises = None, read_raises = Some NoProfileError,
      set_default_profile_raises = None, load_profiles_raises = None,
      fresh_read_raises = None, ensure_profile_raises = None,
      validate_raises = Some (OtherError ''invalid''),
      migrate_from_previous_config = Inr False, tentacles_isdir = True\<rparr>))) = 1
   \<and> snd (create_startup_config
        \<lparr>is_config_file_empty_or_missing = False, init_config_raises = None,
      first_run_read_raises = None, read_raises = Some NoProfileError,
      set_default_profile_raises = None, load_profiles_raises = None,
      fresh_read_raises = None, ensure_profile_raises = None,
      validate_raises = Some (OtherError ''invalid''),
      migrate_from_previous_config = Inr False, tentacles_isdir = True\<rparr>) = Inl ConfigError"
  by (simp add: create_startup_config_def read_config_def repair_with_default_profile_def
      ensure_profile_then_validate_def validate_config_def)

text \<open>
  C9. When the configuration file exists and \<open>_read_config\<close> has returned, a
  \<open>NoProfileError\<close> or \<open>ConfigError\<close> raised by \<open>ensure_profile\<close> or by the validation leaves
  \<open>_create_startup_config\<close> exactly when the tentacles directory exists; when it does not
  exist the function returns the configuration object and \<open>False\<close> for the first startup.
\<close>

theorem startup_errors_need_tentacles_dir:
  assumes "\<not> is_config_file_empty_or_missing E"
    and "snd (read_config E Original) = Inr ()"
    and "snd (ensure_profile_then_validate E Original) = Inl e"
    and "e = NoProfileError \<or> e = ConfigError"
  shows "snd (create_startup_config E)
           = (if tentacles_isdir E then Inl e else Inr (Original, False))"
  using startup_after_read [OF assms(1,2)] assms(3,4) by auto

theorem startup_errors_need_tentacles_dir_witness:
  "snd (ensure_profile_then_validate
          \<lparr>is_config_file_empty_or_missing = False, init_config_raises = None,
      first_run_read_raises = None, read_raises = None,
      set_default_profile_raises = None, load_profiles_raises = None,
      fresh_read_raises = None, ensure_profile_raises = Some NoProfileError,
      validate_raises = None, migrate_from_previous_config = Inr True,
      tentacles_isdir = False\<rparr> Original) = Inl NoProfileError
   \<and> snd (create_startup_config
          \<lparr>is_config_file_empty_or_missing = False, init_config_raises = None,
      first_run_read_raises = None, read_raises = None,
      set_default_profile_raises = None, load_profiles_raises = None,
      fresh_read_raises = None, ensure_profile_raises = Some NoProfileError,
      validate_raises = None, migrate_from_previous_config = Inr True,
      tentacles_isdir = False\<rparr>) = Inr (Original, False)
   \<and> snd (create_startup_config
          \<lparr>is_config_file_empty_or_missing = False, init_config_raises = None,
      first_run_read_raises = None, read_raises = None,
      set_default_profile_raises = None, load_profiles_raises = None,
      fresh_read_raises = None, ensure_profile_raises = Some NoProfileError,
      validate_raises = None, migrate_from_previous_config = Inr True,
      tentacles_isdir = True\<rparr>) = Inl NoProfileError"
proof -
  let ?A = "\<lparr>is_config_file_empty_or_missing = False, init_config_raises = None,
      first_run_read_raises = None, read_raises = None,
      set_default_profile_raises = None, load_profiles_raises = None,
      fresh_read_raises = None, ensure_profile_raises = Some NoProfileError,
      validate_raises = None, migrate_from_previous_config = Inr True,
      tentacles_isdir = False\<rparr>"
  let ?B = "\<lparr>is_config_file_empty_or_missing = False, init_config_raises = None,
      first_run_read_raises = None, read_raises = None,
      set_default_profile_raises = None, load_profiles_raises = None,
      fresh_read_raises = None, ensure_profile_raises = Some NoProfileError,
      validate_raises = None, migrate_from_previous_config = Inr True,
      tentacles_isdir = True\<rparr>"
  have a: "\<not> is_config_file_empty_or_missing ?A" "snd (read_config ?A Original) = Inr ()"
    "snd (ensure_profile_then_validate ?A Original) = Inl NoProfileError"
    by (simp_all add: read_config_def ensure_profile_then_validate_def)
  have b: "\<not> is_config_file_empty_or_missing ?B" "snd (read_config ?B Original) = Inr ()"
    "snd (ensure_profile_then_validate ?B Original) = Inl NoProfileError"
    by (simp_all add: read_config_def ensure_profile_then_validate_def)
  have e: "NoProfileError = NoProfileError \<or> NoProfileError = ConfigError" by simp
  from startup_errors_need_tentacles_dir [OF a e]
  have "snd (create_startup_config ?A) = Inr (Original, False)" by simp
  moreover from startup_errors_need_tentacles_dir [OF b e]
  have "snd (create_startup_config ?B) = Inl NoProfileError" by simp
  ultimately show ?thesis using a(3) by blast
qed

end
